theory Spec2Isabelle
  imports Complex_Main "HOL-Library.Monad_Syntax"
begin

section \<open>Strings\<close>

text \<open>
  A Python \<open>str\<close> is modelled as a \<open>string\<close>, a list of 8-bit characters read as the
  code points 0 to 255. The character classes of \<open>re\<close> and of \<open>str.strip\<close> below are the
  ones Python 3 uses on these code points (Unicode-aware \<open>\w\<close>, \<open>\s\<close>, \<open>\d\<close>).
\<close>

definition quote :: string where
  "quote = [CHR 0x27]"

definition is_digit :: "char \<Rightarrow> bool" where
  "is_digit c = (let n = (of_char c :: nat) in 48 \<le> n \<and> n \<le> 57)"

definition is_word :: "char \<Rightarrow> bool" where
  "is_word c = (let n = (of_char c :: nat) in
     (48 \<le> n \<and> n \<le> 57) \<or> (65 \<le> n \<and> n \<le> 90) \<or> n = 95 \<or> (97 \<le> n \<and> n \<le> 122) \<or>
     n = 170 \<or> n = 178 \<or> n = 179 \<or> n = 181 \<or> n = 185 \<or> n = 186 \<or>
     (188 \<le> n \<and> n \<le> 190) \<or> (192 \<le> n \<and> n \<le> 214) \<or>
     (216 \<le> n \<and> n \<le> 246) \<or> (248 \<le> n \<and> n \<le> 255))"

definition is_space :: "char \<Rightarrow> bool" where
  "is_space c = (let n = (of_char c :: nat) in
     (9 \<le> n \<and> n \<le> 13) \<or> (28 \<le> n \<and> n \<le> 32) \<or> n = 133 \<or> n = 160)"

text \<open>\<open>s.startswith(p)\<close> and \<open>sub in s\<close>.\<close>

fun starts_with :: "string \<Rightarrow> string \<Rightarrow> bool" where
  "starts_with s [] = True"
| "starts_with [] (p # ps) = False"
| "starts_with (c # cs) (p # ps) = (c = p \<and> starts_with cs ps)"

fun contains :: "string \<Rightarrow> string \<Rightarrow> bool" where
  "contains [] sub = starts_with [] sub"
| "contains (c # cs) sub = (starts_with (c # cs) sub \<or> contains cs sub)"

text \<open>
  \<open>s.split(sep)\<close> for a non-empty separator: the pieces between the non-overlapping
  occurrences of \<open>sep\<close>, found from the left. \<open>cur\<close> is the piece read so far. (Python
  raises on an empty separator; every separator of the program is a non-empty literal,
  and the model then returns the string whole.)
\<close>

function split_go :: "string \<Rightarrow> string \<Rightarrow> string \<Rightarrow> string list" where
  "split_go sep cur [] = [cur]"
| "split_go sep cur (c # cs) =
     (if sep \<noteq> [] \<and> starts_with (c # cs) sep
      then cur # split_go sep [] (drop (length sep) (c # cs))
      else split_go sep (cur @ [c]) cs)"
  by pat_completeness auto
termination
  by (relation "measure (\<lambda>(sep, cur, s). length s)") auto

definition split :: "string \<Rightarrow> string \<Rightarrow> string list" where
  "split s sep = split_go sep [] s"

text \<open>\<open>sep.join(xs)\<close> and \<open>s.strip()\<close>.\<close>

fun join :: "string \<Rightarrow> string list \<Rightarrow> string" where
  "join sep [] = []"
| "join sep [x] = x"
| "join sep (x # y # ys) = x @ sep @ join sep (y # ys)"

definition strip :: "string \<Rightarrow> string" where
  "strip s = rev (dropWhile is_space (rev (dropWhile is_space s)))"

text \<open>
  \<open>int(s)\<close> on a string of decimal digits (the only strings the program converts are
  matches of \<open>\d+\<close>), and \<open>str(n)\<close> as an f-string prints an integer. The interpreter's
  optional limit on the number of digits \<open>int\<close> accepts is not modelled.
\<close>

definition digit_val :: "char \<Rightarrow> nat" where
  "digit_val c = of_char c - 48"

definition int_of_str :: "string \<Rightarrow> nat" where
  "int_of_str s = foldl (\<lambda>acc c. 10 * acc + digit_val c) 0 s"

definition digit_char :: "nat \<Rightarrow> char" where
  "digit_char d = ''0123456789'' ! d"

fun str_nat :: "nat \<Rightarrow> string" where
  "str_nat n = (if n < 10 then [digit_char n] else str_nat (n div 10) @ [digit_char (n mod 10)])"

declare str_nat.simps [simp del]

definition str_int :: "int \<Rightarrow> string" where
  "str_int i = (if i < 0 then CHR ''-'' # str_nat (nat (- i)) else str_nat (nat i))"

section \<open>Regular expressions\<close>

text \<open>
  The patterns of the program use literals, the classes \<open>\w\<close>, \<open>\d\<close>, \<open>\s\<close> and \<open>.\<close>,
  sequence, alternation, the greedy \<open>+\<close> and \<open>*\<close>, the lazy \<open>*?\<close>, capturing groups and the
  word boundary \<open>\b\<close>. \<open>ms r st\<close> lists every way \<open>r\<close> can match at the state \<open>st\<close>, in
  the order in which Python's backtracking matcher tries them, so that the head of the
  list is the match \<open>re\<close> reports. A state holds the character before the position
  (for \<open>\b\<close>), the text still to read, and the groups closed so far.
\<close>

datatype cclass = Word | Digit | Space | Dot

fun in_class :: "cclass \<Rightarrow> char \<Rightarrow> bool" where
  "in_class Word c = is_word c"
| "in_class Digit c = is_digit c"
| "in_class Space c = is_space c"
| "in_class Dot c = (c \<noteq> CHR 0x0A)"

datatype regex =
    Lit string
  | Class cclass
  | Cat regex regex
  | Alt regex regex
  | Plus regex
  | Star regex
  | StarLazy regex
  | Group regex
  | WordB

record mstate =
  m_prev :: "char option"
  m_rest :: string
  m_groups :: "string list"

fun advance :: "string \<Rightarrow> mstate \<Rightarrow> mstate" where
  "advance [] st = st"
| "advance (p # ps) st = advance ps (st\<lparr>m_prev := Some p, m_rest := tl (m_rest st)\<rparr>)"

definition at_boundary :: "mstate \<Rightarrow> bool" where
  "at_boundary st =
     ((case m_prev st of None \<Rightarrow> False | Some c \<Rightarrow> is_word c) \<noteq>
      (case m_rest st of [] \<Rightarrow> False | c # _ \<Rightarrow> is_word c))"

text \<open>
  Repetition: an iteration that reads nothing is dropped, so at most as many iterations
  as characters left are tried. The greedy star tries one more iteration before it
  stops; the lazy star stops before it tries one more.
\<close>

fun star_greedy :: "nat \<Rightarrow> (mstate \<Rightarrow> mstate list) \<Rightarrow> mstate \<Rightarrow> mstate list" where
  "star_greedy 0 f st = [st]"
| "star_greedy (Suc n) f st =
     concat (map (star_greedy n f)
       (filter (\<lambda>st'. length (m_rest st') < length (m_rest st)) (f st))) @ [st]"

fun star_lazy :: "nat \<Rightarrow> (mstate \<Rightarrow> mstate list) \<Rightarrow> mstate \<Rightarrow> mstate list" where
  "star_lazy 0 f st = [st]"
| "star_lazy (Suc n) f st =
     st # concat (map (star_lazy n f)
       (filter (\<lambda>st'. length (m_rest st') < length (m_rest st)) (f st)))"

primrec ms :: "regex \<Rightarrow> mstate \<Rightarrow> mstate list" where
  "ms (Lit s) st = (if starts_with (m_rest st) s then [advance s st] else [])"
| "ms (Class k) st =
     (case m_rest st of
        [] \<Rightarrow> []
      | c # cs \<Rightarrow> if in_class k c then [st\<lparr>m_prev := Some c, m_rest := cs\<rparr>] else [])"
| "ms (Cat r1 r2) st = concat (map (ms r2) (ms r1 st))"
| "ms (Alt r1 r2) st = ms r1 st @ ms r2 st"
| "ms (Plus r) st = concat (map (star_greedy (length (m_rest st)) (ms r)) (ms r st))"
| "ms (Star r) st = star_greedy (length (m_rest st)) (ms r) st"
| "ms (StarLazy r) st = star_lazy (length (m_rest st)) (ms r) st"
| "ms (Group r) st =
     map (\<lambda>st'. st'\<lparr>m_groups :=
            m_groups st' @ [take (length (m_rest st) - length (m_rest st')) (m_rest st)]\<rparr>)
       (ms r st)"
| "ms WordB st = (if at_boundary st then [st] else [])"

text \<open>
  \<open>re.search\<close>: the first match at the leftmost position that has one, anywhere in the
  string; the result is the list of the groups, \<open>None\<close> when no position matches.
\<close>

fun search_from :: "regex \<Rightarrow> char option \<Rightarrow> string \<Rightarrow> string list option" where
  "search_from r p [] =
     (case ms r \<lparr>m_prev = p, m_rest = [], m_groups = []\<rparr> of
        st # _ \<Rightarrow> Some (m_groups st)
      | [] \<Rightarrow> None)"
| "search_from r p (c # cs) =
     (case ms r \<lparr>m_prev = p, m_rest = c # cs, m_groups = []\<rparr> of
        st # _ \<Rightarrow> Some (m_groups st)
      | [] \<Rightarrow> search_from r (Some c) cs)"

definition re_search :: "regex \<Rightarrow> string \<Rightarrow> string list option" where
  "re_search r s = search_from r None s"

text \<open>
  \<open>re.findall\<close>: the groups of the successive non-overlapping matches, from the left.
  After a match the scan goes on where the match ended (one character further when the
  match was empty; no pattern of the program matches the empty string).
\<close>

function findall_from :: "regex \<Rightarrow> char option \<Rightarrow> string \<Rightarrow> string list list" where
  "findall_from r p s =
     (case ms r \<lparr>m_prev = p, m_rest = s, m_groups = []\<rparr> of
        st # _ \<Rightarrow>
          m_groups st #
            (if length (m_rest st) < length s then findall_from r (m_prev st) (m_rest st)
             else (case s of [] \<Rightarrow> [] | c # cs \<Rightarrow> findall_from r (Some c) cs))
      | [] \<Rightarrow> (case s of [] \<Rightarrow> [] | c # cs \<Rightarrow> findall_from r (Some c) cs))"
  by pat_completeness auto
termination
  by (relation "measure (\<lambda>(r, p, s). length s)") auto

declare findall_from.simps [simp del]

definition re_findall :: "regex \<Rightarrow> string \<Rightarrow> string list list" where
  "re_findall r s = findall_from r None s"

text \<open>The first and second group of a match (\<open>''\<close> for a group that took no part).\<close>

fun group1 :: "string list \<Rightarrow> string" where
  "group1 [] = []"
| "group1 (g # gs) = g"

fun group2 :: "string list \<Rightarrow> string" where
  "group2 (g # h # gs) = h"
| "group2 gs = []"

fun seq :: "regex list \<Rightarrow> regex" where
  "seq [] = Lit []"
| "seq [r] = r"
| "seq (r # rs) = Cat r (seq rs)"

text \<open>\<open>(\w+)\<close>\<close>

definition word_group :: regex where
  "word_group = Group (Plus (Class Word))"

section \<open>Data model\<close>

text \<open>
  The request and response models of the service. A \<open>confidence\<close> is the decimal
  literal the source writes.
\<close>

record ErrorInput =
  error_message :: string
  code_context :: "string option"
  language :: string
  project_id :: "string option"

record solution =
  fix_text :: string
  explanation :: string
  confidence :: real
  code_example :: string

record LearningResource =
  title :: string
  description :: string
  url :: "string option"
  resource_type :: string

text \<open>
  A value decoded by \<open>json.loads\<close>. A JSON object is the list of its members, each key
  once, as a Python \<open>dict\<close> holds them.
\<close>

datatype json =
    JNull
  | JBool bool
  | JInt int
  | JFloat real
  | JStr string
  | JArr "json list"
  | JObj "(string \<times> json) list"

text \<open>
  \<open>common_contexts\<close> and \<open>related_errors\<close> are assigned from the decoded answer of the AI
  service without validation, so they hold whatever JSON value the answer had.
\<close>

record ErrorStatistics =
  frequency :: "nat option"
  common_contexts :: "json option"
  related_errors :: "json option"
  last_occurrence :: "string option"

record ErrorResponse =
  error_type :: string
  solutions :: "solution list"
  concepts :: "string list"
  learning_resources :: "LearningResource list option"
  statistics :: "ErrorStatistics option"

section \<open>Pattern catalog\<close>

text \<open>
  \<open>ERROR_PATTERNS\<close> is a dictionary literal; iterating over its items follows the order
  of declaration, so the catalog is the list of its entries in that order.
\<close>

record pattern_entry =
  label :: string
  pattern :: regex
  entry_solutions :: "solution list"
  entry_concepts :: "string list"

text \<open>\<open>name '(\w+)' is not defined\<close>\<close>

definition NameError_pattern :: regex where
  "NameError_pattern = seq [Lit (''name '' @ quote), word_group, Lit (quote @ '' is not defined'')]"

text \<open>\<open>unsupported operand type\(s\) for (\+|-|\*|\/): '(\w+)' and '(\w+)'\<close>\<close>

definition TypeError_pattern :: regex where
  "TypeError_pattern =
     seq [Lit ''unsupported operand type(s) for '',
          Group (Alt (Lit ''+'') (Alt (Lit ''-'') (Alt (Lit ''*'') (Lit ''/'')))),
          Lit ('': '' @ quote), word_group, Lit (quote @ '' and '' @ quote), word_group, Lit quote]"

text \<open>\<open>list index out of range\<close>\<close>

definition IndexError_pattern :: regex where
  "IndexError_pattern = Lit ''list index out of range''"

text \<open>\<open>KeyError: '(\w+)'\<close>\<close>

definition KeyError_pattern :: regex where
  "KeyError_pattern = seq [Lit (''KeyError: '' @ quote), word_group, Lit quote]"

text \<open>\<open>SyntaxError: invalid syntax\<close>\<close>

definition SyntaxError_pattern :: regex where
  "SyntaxError_pattern = Lit ''SyntaxError: invalid syntax''"

text \<open>\<open>IndentationError: (unexpected indent|expected an indented block)\<close>\<close>

definition IndentationError_pattern :: regex where
  "IndentationError_pattern =
     seq [Lit ''IndentationError: '',
          Group (Alt (Lit ''unexpected indent'') (Lit ''expected an indented block''))]"

text \<open>\<open>ImportError: No module named '(\w+)'\<close>\<close>

definition ImportError_pattern :: regex where
  "ImportError_pattern = seq [Lit (''ImportError: No module named '' @ quote), word_group, Lit quote]"

text \<open>\<open>AttributeError: '(\w+)' object has no attribute '(\w+)'\<close>\<close>

definition AttributeError_pattern :: regex where
  "AttributeError_pattern =
     seq [Lit (''AttributeError: '' @ quote), word_group,
          Lit (quote @ '' object has no attribute '' @ quote), word_group, Lit quote]"

text \<open>\<open>ZeroDivisionError: division by zero\<close>\<close>

definition ZeroDivisionError_pattern :: regex where
  "ZeroDivisionError_pattern = Lit ''ZeroDivisionError: division by zero''"

text \<open>\<open>ValueError: invalid literal for int\(\) with base 10: '(\w+)'\<close>\<close>

definition ValueError_pattern :: regex where
  "ValueError_pattern =
     seq [Lit (''ValueError: invalid literal for int() with base 10: '' @ quote), word_group, Lit quote]"

definition NameError_solutions :: "solution list" where
  \<open>NameError_solutions =
     [\<lparr>fix_text = ''Define the variable before using it'',
       explanation = ''This error occurs when you try to use a variable that hasn't been defined yet.'',
       confidence = 0.9,
       code_example =
          ''\<newline>'' @
          ''# Wrong\<newline>'' @
          ''print(undefined_variable)\<newline>'' @
          ''\<newline>'' @
          ''# Correct\<newline>'' @
          ''undefined_variable = 'some value'' @ quote @ ''\<newline>'' @
          ''print(undefined_variable)\<newline>''\<rparr>]\<close>

definition NameError_concepts :: "string list" where
  "NameError_concepts = [''variable scope'', ''variable declaration'']"

definition TypeError_solutions :: "solution list" where
  \<open>TypeError_solutions =
     [\<lparr>fix_text = ''Convert variables to compatible types before operation'',
       explanation = ''This error occurs when you try to perform operations on incompatible types.'',
       confidence = 0.85,
       code_example =
          ''\<newline>'' @
          ''# Wrong\<newline>'' @
          ''result = "123" + 456\<newline>'' @
          ''\<newline>'' @
          ''# Correct\<newline>'' @
          ''result = int("123") + 456  # If you want a number\<newline>'' @
          ''# OR\<newline>'' @
          ''result = "123" + str(456)  # If you want a string\<newline>''\<rparr>]\<close>

definition TypeError_concepts :: "string list" where
  "TypeError_concepts = [''type conversion'', ''operators'']"

definition IndexError_solutions :: "solution list" where
  \<open>IndexError_solutions =
     [\<lparr>fix_text = ''Check that the index is within the bounds of the list'',
       explanation = ''This error occurs when you try to access an index that doesn't exist in the list.'',
       confidence = 0.95,
       code_example =
          ''\<newline>'' @
          ''# Wrong\<newline>'' @
          ''my_list = [1, 2, 3]\<newline>'' @
          ''print(my_list[3])  # Index 3 doesn't exist\<newline>'' @
          ''\<newline>'' @
          ''# Correct\<newline>'' @
          ''my_list = [1, 2, 3]\<newline>'' @
          ''if len(my_list) > 3:\<newline>'' @
          ''    print(my_list[3])\<newline>'' @
          ''else:\<newline>'' @
          ''    print("Index out of range")\<newline>''\<rparr>]\<close>

definition IndexError_concepts :: "string list" where
  "IndexError_concepts = [''lists'', ''indexing'', ''bounds checking'']"

definition KeyError_solutions :: "solution list" where
  \<open>KeyError_solutions =
     [\<lparr>fix_text = ''Check if the key exists before accessing it'',
       explanation = ''This error occurs when you try to access a dictionary with a key that doesn't exist.'',
       confidence = 0.9,
       code_example =
          ''\<newline>'' @
          ''# Wrong\<newline>'' @
          ''my_dict = {'a': 1, 'b': 2}\<newline>'' @
          ''print(my_dict['c'])\<newline>'' @
          ''\<newline>'' @
          ''# Correct\<newline>'' @
          ''my_dict = {'a': 1, 'b': 2}\<newline>'' @
          ''if 'c' in my_dict:\<newline>'' @
          ''    print(my_dict['c'])\<newline>'' @
          ''else:\<newline>'' @
          ''    print("Key doesn't exist")\<newline>'' @
          ''    \<newline>'' @
          ''# Alternative using .get()\<newline>'' @
          ''print(my_dict.get('c', 'Key doesn't exist'))\<newline>''\<rparr>]\<close>

definition KeyError_concepts :: "string list" where
  "KeyError_concepts = [''dictionaries'', ''key validation'', ''default values'']"

definition SyntaxError_solutions :: "solution list" where
  \<open>SyntaxError_solutions =
     [\<lparr>fix_text = ''Check your code for syntax errors'',
       explanation = ''This generic syntax error occurs when Python can't parse your code.'',
       confidence = 0.7,
       code_example =
          ''\<newline>'' @
          ''# Common syntax errors:\<newline>'' @
          ''\<newline>'' @
          ''# 1. Missing closing parenthesis\<newline>'' @
          ''print("Hello"\<newline>'' @
          ''\<newline>'' @
          ''# 2. Missing colons after if/for/while statements\<newline>'' @
          ''if x > 5\<newline>'' @
          ''    print(x)\<newline>'' @
          ''\<newline>'' @
          ''# 3. Incorrect indentation\<newline>'' @
          ''if x > 5:\<newline>'' @
          ''print(x)\<newline>''\<rparr>]\<close>

definition SyntaxError_concepts :: "string list" where
  "SyntaxError_concepts = [''syntax'', ''code structure'', ''indentation'']"

definition IndentationError_solutions :: "solution list" where
  \<open>IndentationError_solutions =
     [\<lparr>fix_text = ''Fix your code's indentation'',
       explanation = ''This error occurs when your code has inconsistent indentation.'',
       confidence = 0.9,
       code_example =
          ''\<newline>'' @
          ''# Wrong\<newline>'' @
          ''if x > 5:\<newline>'' @
          ''print("x is greater than 5")  # Missing indentation\<newline>'' @
          ''\<newline>'' @
          ''# Correct\<newline>'' @
          ''if x > 5:\<newline>'' @
          ''    print("x is greater than 5")  # Properly indented\<newline>''\<rparr>]\<close>

definition IndentationError_concepts :: "string list" where
  "IndentationError_concepts = [''indentation'', ''code blocks'', ''Python syntax'']"

definition ImportError_solutions :: "solution list" where
  \<open>ImportError_solutions =
     [\<lparr>fix_text = ''Install the missing module or check the import statement'',
       explanation = ''This error occurs when Python can't find the module you're trying to import.'',
       confidence = 0.85,
       code_example =
          ''\<newline>'' @
          ''# Error\<newline>'' @
          ''import non_existent_module\<newline>'' @
          ''\<newline>'' @
          ''# Fix: Install the module\<newline>'' @
          ''# pip install module_name\<newline>'' @
          ''\<newline>'' @
          ''# Or check if you misspelled the module name\<newline>'' @
          ''import os  # instead of 'Os' or 'OS'' @ quote @ ''\<newline>''\<rparr>]\<close>

definition ImportError_concepts :: "string list" where
  "ImportError_concepts = [''imports'', ''modules'', ''package management'']"

definition AttributeError_solutions :: "solution list" where
  \<open>AttributeError_solutions =
     [\<lparr>fix_text = ''Check if the object has the attribute you're trying to access'',
       explanation = ''This error occurs when you try to access an attribute or method that doesn't exist for that object.'',
       confidence = 0.85,
       code_example =
          ''\<newline>'' @
          ''# Wrong\<newline>'' @
          ''x = 5\<newline>'' @
          ''x.append(10)  # integers don't have an append method\<newline>'' @
          ''\<newline>'' @
          ''# Correct\<newline>'' @
          ''# Check the object type first\<newline>'' @
          ''x = 5\<newline>'' @
          ''if hasattr(x, 'append'):\<newline>'' @
          ''    x.append(10)\<newline>'' @
          ''else:\<newline>'' @
          ''    print("This object doesn't have an append method")\<newline>''\<rparr>]\<close>

definition AttributeError_concepts :: "string list" where
  "AttributeError_concepts = [''object attributes'', ''methods'', ''type checking'']"

definition ZeroDivisionError_solutions :: "solution list" where
  \<open>ZeroDivisionError_solutions =
     [\<lparr>fix_text = ''Check for zero before dividing'',
       explanation = ''This error occurs when you try to divide by zero.'',
       confidence = 0.95,
       code_example =
          ''\<newline>'' @
          ''# Wrong\<newline>'' @
          ''x = 10 / 0\<newline>'' @
          ''\<newline>'' @
          ''# Correct\<newline>'' @
          ''denominator = 0\<newline>'' @
          ''if denominator != 0:\<newline>'' @
          ''    result = 10 / denominator\<newline>'' @
          ''else:\<newline>'' @
          ''    result = "Cannot divide by zero"\<newline>''\<rparr>]\<close>

definition ZeroDivisionError_concepts :: "string list" where
  "ZeroDivisionError_concepts = [''division'', ''error checking'', ''defensive programming'']"

definition ValueError_solutions :: "solution list" where
  \<open>ValueError_solutions =
     [\<lparr>fix_text = ''Ensure the string can be converted to an integer'',
       explanation = ''This error occurs when you try to convert a string to an integer, but the string doesn't represent a valid integer.'',
       confidence = 0.9,
       code_example =
          ''\<newline>'' @
          ''# Wrong\<newline>'' @
          ''int("abc")\<newline>'' @
          ''\<newline>'' @
          ''# Correct\<newline>'' @
          ''user_input = "abc"\<newline>'' @
          ''try:\<newline>'' @
          ''    number = int(user_input)\<newline>'' @
          ''except ValueError:\<newline>'' @
          ''    print("Input must be a valid integer")\<newline>'' @
          ''    number = 0  # default value\<newline>''\<rparr>]\<close>

definition ValueError_concepts :: "string list" where
  "ValueError_concepts = [''type conversion'', ''input validation'', ''exception handling'']"


definition ERROR_PATTERNS :: "pattern_entry list" where
  "ERROR_PATTERNS =
     [\<lparr>label = ''NameError'', pattern = NameError_pattern,
        entry_solutions = NameError_solutions, entry_concepts = NameError_concepts\<rparr>,
      \<lparr>label = ''TypeError'', pattern = TypeError_pattern,
        entry_solutions = TypeError_solutions, entry_concepts = TypeError_concepts\<rparr>,
      \<lparr>label = ''IndexError'', pattern = IndexError_pattern,
        entry_solutions = IndexError_solutions, entry_concepts = IndexError_concepts\<rparr>,
      \<lparr>label = ''KeyError'', pattern = KeyError_pattern,
        entry_solutions = KeyError_solutions, entry_concepts = KeyError_concepts\<rparr>,
      \<lparr>label = ''SyntaxError'', pattern = SyntaxError_pattern,
        entry_solutions = SyntaxError_solutions, entry_concepts = SyntaxError_concepts\<rparr>,
      \<lparr>label = ''IndentationError'', pattern = IndentationError_pattern,
        entry_solutions = IndentationError_solutions, entry_concepts = IndentationError_concepts\<rparr>,
      \<lparr>label = ''ImportError'', pattern = ImportError_pattern,
        entry_solutions = ImportError_solutions, entry_concepts = ImportError_concepts\<rparr>,
      \<lparr>label = ''AttributeError'', pattern = AttributeError_pattern,
        entry_solutions = AttributeError_solutions, entry_concepts = AttributeError_concepts\<rparr>,
      \<lparr>label = ''ZeroDivisionError'', pattern = ZeroDivisionError_pattern,
        entry_solutions = ZeroDivisionError_solutions, entry_concepts = ZeroDivisionError_concepts\<rparr>,
      \<lparr>label = ''ValueError'', pattern = ValueError_pattern,
        entry_solutions = ValueError_solutions, entry_concepts = ValueError_concepts\<rparr>]"

section \<open>Context heuristics\<close>

text \<open>
  The fields of the records above carry the names of the source, so the parameters
  \<open>error_type\<close>, \<open>error_message\<close> and \<open>code_context\<close> of the functions below are
  written \<open>etype\<close>, \<open>msg\<close> and \<open>ctx\<close>.


  The result of \<open>analyze_code_context\<close>: the dictionary with the two entries
  \<open>specific_issue\<close> and \<open>specific_fix\<close>, each \<open>None\<close> until a heuristic sets it.
\<close>

record context_analysis =
  specific_issue :: "string option"
  specific_fix :: "string option"

text \<open>\<open>\b(\w+)\b\<close>\<close>

definition variable_pattern :: regex where
  "variable_pattern = seq [WordB, word_group, WordB]"

text \<open>
  The loop over the lines of the snippet, which adds every match of a line to the set
  \<open>all_variables\<close>. The model collects the matches in the order in which they are added.
\<close>

fun collect_variables :: "string list \<Rightarrow> string list" where
  "collect_variables [] = []"
| "collect_variables (line # lines) =
     map group1 (re_findall variable_pattern line) @ collect_variables lines"

text \<open>
  \<open>sum(1 for a, b in zip(var, undefined_var) if a != b)\<close>: \<open>zip\<close> stops at the end of the
  shorter string.
\<close>

definition differences :: "string \<Rightarrow> string \<Rightarrow> nat" where
  "differences var undefined_var = length (filter (\<lambda>(a, b). a \<noteq> b) (zip var undefined_var))"

text \<open>The loop \<open>for var in all_variables\<close>, which appends to \<open>similar_vars\<close>.\<close>

fun similar_loop :: "string \<Rightarrow> string list \<Rightarrow> string list \<Rightarrow> string list" where
  "similar_loop undefined_var [] similar_vars = similar_vars"
| "similar_loop undefined_var (var # vars) similar_vars =
     (if var \<noteq> undefined_var \<and> \<bar>int (length var) - int (length undefined_var)\<bar> \<le> 2
      then (if differences var undefined_var \<le> 2
            then similar_loop undefined_var vars (similar_vars @ [var])
            else similar_loop undefined_var vars similar_vars)
      else similar_loop undefined_var vars similar_vars)"

text \<open>The two messages of the heuristic, as the f-strings build them.\<close>

definition typo_issue :: "string \<Rightarrow> string" where
  "typo_issue undefined_var =
     ''You might have a typo in variable name '' @ quote @ undefined_var @ quote"

definition typo_fix :: "string \<Rightarrow> string list \<Rightarrow> string" where
  "typo_fix first similar_vars =
     ''Did you mean '' @ quote @ first @ quote @ ''? Similar variables found: '' @
     join '', '' similar_vars"

text \<open>
  The \<open>NameError\<close> branch. A Python set is iterated in an order the language does not
  fix: \<open>iteration\<close> is the order in which the run at hand iterates over the set built by
  adding the given elements.
\<close>

definition name_error_analysis ::
    "(string list \<Rightarrow> string list) \<Rightarrow> string \<Rightarrow> string \<Rightarrow> context_analysis" where
  "name_error_analysis iteration msg ctx =
     (let lines = split ctx ''\<newline>'';
          all_variables = iteration (collect_variables lines)
      in case re_search NameError_pattern msg of
           None \<Rightarrow> \<lparr>specific_issue = None, specific_fix = None\<rparr>
         | Some gs \<Rightarrow>
             (let undefined_var = group1 gs;
                  similar_vars = similar_loop undefined_var all_variables []
              in case similar_vars of
                   [] \<Rightarrow> \<lparr>specific_issue = None, specific_fix = None\<rparr>
                 | first # _ \<Rightarrow>
                     \<lparr>specific_issue = Some (typo_issue undefined_var),
                      specific_fix = Some (typo_fix first similar_vars)\<rparr>))"

text \<open>\<open>(\w+)\s*=\s*\[(.*?)\]\<close>\<close>

definition list_pattern :: regex where
  "list_pattern =
     seq [word_group, Star (Class Space), Lit ''='', Star (Class Space), Lit ''['',
          Group (StarLazy (Class Dot)), Lit '']'']"

text \<open>
  \<open>rf'{list_name}\[(\d+)\]'\<close>: the list name is spliced into the pattern. It is a match
  of \<open>\w+\<close>, so every character of it stands for itself.
\<close>

definition index_pattern :: "string \<Rightarrow> regex" where
  "index_pattern list_name = seq [Lit list_name, Lit ''['', Group (Plus (Class Digit)), Lit '']'']"

text \<open>The two messages of this heuristic.\<close>

definition index_issue :: "nat \<Rightarrow> string \<Rightarrow> string" where
  "index_issue index list_name =
     ''Index '' @ str_nat index @ '' is out of range for list '' @ quote @ list_name @ quote"

definition index_fix :: "string \<Rightarrow> nat \<Rightarrow> string" where
  "index_fix list_name list_length =
     ''The list '' @ quote @ list_name @ quote @ '' appears to have '' @ str_nat list_length @
     '' items (indices 0-'' @ str_int (int list_length - 1) @ '')''"

text \<open>The inner loop \<open>for index_str in index_matches\<close>.\<close>

fun index_loop :: "string \<Rightarrow> nat \<Rightarrow> string list \<Rightarrow> context_analysis \<Rightarrow> context_analysis" where
  "index_loop list_name list_length [] ca = ca"
| "index_loop list_name list_length (index_str # index_matches) ca =
     (let index = int_of_str index_str
      in index_loop list_name list_length index_matches
           (if index \<ge> list_length
            then ca\<lparr>specific_issue := Some (index_issue index list_name),
                    specific_fix := Some (index_fix list_name list_length)\<rparr>
            else ca))"

text \<open>The outer loop \<open>for list_name, list_content in list_matches\<close>.\<close>

fun list_loop :: "string \<Rightarrow> string list list \<Rightarrow> context_analysis \<Rightarrow> context_analysis" where
  "list_loop ctx [] ca = ca"
| "list_loop ctx (m # list_matches) ca =
     (let list_name = group1 m;
          list_content = group2 m;
          items = split list_content '','';
          list_length = length items;
          index_matches = map group1 (re_findall (index_pattern list_name) ctx)
      in list_loop ctx list_matches (index_loop list_name list_length index_matches ca))"

definition index_error_analysis :: "string \<Rightarrow> context_analysis" where
  "index_error_analysis ctx =
     list_loop ctx (re_findall list_pattern ctx)
       \<lparr>specific_issue = None, specific_fix = None\<rparr>"

text \<open>\<open>analyze_code_context\<close>: \<open>None\<close> for an empty snippet.\<close>

definition analyze_code_context ::
    "(string list \<Rightarrow> string list) \<Rightarrow> string \<Rightarrow> string \<Rightarrow> string \<Rightarrow> context_analysis option" where
  "analyze_code_context iteration etype msg ctx =
     (if ctx = [] then None
      else if etype = ''NameError''
        then Some (name_error_analysis iteration msg ctx)
      else if etype = ''IndexError''
        then Some (index_error_analysis ctx)
      else Some \<lparr>specific_issue = None, specific_fix = None\<rparr>)"

section \<open>The world outside the handler\<close>

text \<open>
  One occurrence in the history store: the dictionary with the keys \<open>timestamp\<close>,
  \<open>error_message\<close> and \<open>code_context\<close>.
\<close>

record history_record =
  timestamp :: string
  rec_message :: string
  rec_context :: "string option"

text \<open>\<open>ERROR_HISTORY\<close>: project identifier, then error type, then the occurrences.\<close>

type_synonym history = "string \<rightharpoonup> (string \<rightharpoonup> history_record list)"

text \<open>
  The three prompts sent to the AI service, each given by the values the source splices
  into its template: the error type and the concepts; the error type, the number of
  occurrences and the occurrences shown; the error message and the snippet.
\<close>

datatype prompt =
    LearningResourcesPrompt string "string list"
  | ErrorPatternsPrompt string nat "history_record list"
  | UnknownErrorPrompt string "string option"

text \<open>
  What a request finds around it. \<open>api_key\<close> is the environment value
  \<open>GEMINI_API_KEY\<close>. \<open>generate_content\<close> is the AI service: the text of its answer to a
  prompt, \<open>None\<close> when the call or the reading of the text raises. \<open>json_loads\<close> is
  \<open>json.loads\<close>, \<open>None\<close> when it raises. \<open>now_isoformat\<close> is
  \<open>datetime.now().isoformat()\<close>. \<open>set_order\<close> is the iteration order of a set (see
  above). \<open>as_str\<close> and \<open>as_float\<close> are the validation of a \<open>str\<close> and of a \<open>float\<close>
  field by the model classes, \<open>None\<close> when the value is refused.
\<close>

record env =
  api_key :: "string option"
  generate_content :: "prompt \<Rightarrow> string option"
  json_loads :: "string \<Rightarrow> json option"
  now_isoformat :: string
  set_order :: "string list \<Rightarrow> string list"
  as_str :: "json \<Rightarrow> string option"
  as_float :: "json \<Rightarrow> real option"

text \<open>
  What the handler can raise: the \<open>HTTPException\<close> it raises itself, with status code
  and detail, and the validation error of a model class.
\<close>

datatype failure = HTTPException nat string | ValidationError

text \<open>
  \<open>setup_gemini\<close> raises when the credential is absent or empty; otherwise it returns
  the model object, here the function that answers prompts.
\<close>

definition setup_gemini :: "env \<Rightarrow> (prompt \<Rightarrow> string option) option" where
  "setup_gemini env =
     (case api_key env of
        None \<Rightarrow> None
      | Some k \<Rightarrow> if k = [] then None else Some (generate_content env))"

section \<open>Decoding the answers of the AI service\<close>

definition fence :: string where
  "fence = replicate 3 (CHR 0x60)"

text \<open>
  The text between the code fences, when the answer has them: \<open>content.split(f)[1]\<close>,
  then \<open>.split("```")[0].strip()\<close>. \<open>None\<close> is the \<open>IndexError\<close> of a missing piece.
\<close>

definition between_fences :: "string \<Rightarrow> string \<Rightarrow> string option" where
  "between_fences content f =
     (case split content f of
        _ # x # _ \<Rightarrow> (case split x fence of y # _ \<Rightarrow> Some (strip y) | [] \<Rightarrow> None)
      | _ \<Rightarrow> None)"

definition strip_fence :: "string \<Rightarrow> string option" where
  "strip_fence content =
     (if contains content (fence @ ''json'') then between_fences content (fence @ ''json'')
      else if contains content fence then between_fences content fence
      else Some content)"

text \<open>\<open>d.get(k, default)\<close> on a decoded JSON object.\<close>

definition dict_get :: "(string \<times> json) list \<Rightarrow> string \<Rightarrow> json \<Rightarrow> json" where
  "dict_get kvs k dflt = (case map_of kvs k of None \<Rightarrow> dflt | Some v \<Rightarrow> v)"

text \<open>
  The model classes built from a decoded value by \<open>Cls(**value)\<close>: the value must be an
  object, every field without a default must be there, and every field must pass its
  validation. Members that are not fields are ignored.
\<close>

definition required_str :: "env \<Rightarrow> (string \<times> json) list \<Rightarrow> string \<Rightarrow> string option" where
  "required_str env kvs k = (case map_of kvs k of None \<Rightarrow> None | Some v \<Rightarrow> as_str env v)"

definition required_float :: "env \<Rightarrow> (string \<times> json) list \<Rightarrow> string \<Rightarrow> real option" where
  "required_float env kvs k = (case map_of kvs k of None \<Rightarrow> None | Some v \<Rightarrow> as_float env v)"

definition optional_str :: "env \<Rightarrow> (string \<times> json) list \<Rightarrow> string \<Rightarrow> string option option" where
  "optional_str env kvs k =
     (case map_of kvs k of
        None \<Rightarrow> Some None
      | Some JNull \<Rightarrow> Some None
      | Some v \<Rightarrow> map_option Some (as_str env v))"

definition make_LearningResource :: "env \<Rightarrow> json \<Rightarrow> LearningResource option" where
  "make_LearningResource env resource =
     (case resource of
        JObj kvs \<Rightarrow>
          do {
            t \<leftarrow> required_str env kvs ''title'';
            d \<leftarrow> required_str env kvs ''description'';
            u \<leftarrow> optional_str env kvs ''url'';
            rt \<leftarrow> required_str env kvs ''resource_type'';
            Some \<lparr>title = t, description = d, url = u, resource_type = rt\<rparr>
          }
      | _ \<Rightarrow> None)"

definition make_Solution :: "env \<Rightarrow> json \<Rightarrow> solution option" where
  "make_Solution env sol =
     (case sol of
        JObj kvs \<Rightarrow>
          do {
            f \<leftarrow> required_str env kvs ''fix'';
            e \<leftarrow> required_str env kvs ''explanation'';
            c \<leftarrow> required_float env kvs ''confidence'';
            x \<leftarrow> required_str env kvs ''code_example'';
            Some \<lparr>fix_text = f, explanation = e, confidence = c, code_example = x\<rparr>
          }
      | _ \<Rightarrow> None)"

text \<open>
  \<open>value[:3]\<close> and \<open>for x in value\<close> on a decoded value: a list gives its elements, a
  string its characters, an object (in a loop) its keys; anything else raises.
\<close>

fun first_three :: "json \<Rightarrow> json list option" where
  "first_three (JArr xs) = Some (take 3 xs)"
| "first_three (JStr s) = Some (map (\<lambda>c. JStr [c]) (take 3 s))"
| "first_three _ = None"

fun iterate :: "json \<Rightarrow> json list option" where
  "iterate (JArr xs) = Some xs"
| "iterate (JStr s) = Some (map (\<lambda>c. JStr [c]) s)"
| "iterate (JObj kvs) = Some (map (\<lambda>(k, v). JStr k) kvs)"
| "iterate _ = None"

text \<open>The validation of a \<open>List[str]\<close> field.\<close>

fun as_str_list :: "env \<Rightarrow> json \<Rightarrow> string list option" where
  "as_str_list env (JArr xs) = those (map (as_str env) xs)"
| "as_str_list env _ = None"

section \<open>AI augmentation\<close>

text \<open>
  \<open>get_learning_resources\<close>. \<open>try_learning_resources\<close> is the body of its \<open>try\<close>, \<open>None\<close>
  when it raises; \<open>fallback_resources\<close> is what the \<open>except\<close> branch returns.
\<close>

definition try_learning_resources ::
    "env \<Rightarrow> (prompt \<Rightarrow> string option) \<Rightarrow> string \<Rightarrow> string list \<Rightarrow> LearningResource list option" where
  "try_learning_resources env gemini_model etype cons =
     do {
       content \<leftarrow> gemini_model (LearningResourcesPrompt etype cons);
       content \<leftarrow> strip_fence content;
       resources \<leftarrow> json_loads env content;
       rs \<leftarrow> first_three resources;
       those (map (make_LearningResource env) rs)
     }"

definition fallback_resources :: "string \<Rightarrow> string list \<Rightarrow> LearningResource list" where
  "fallback_resources etype cons =
     [\<lparr>title = ''Understanding '' @ etype @ '' in Python'',
       description = ''Learn how to debug and prevent '' @ etype @ '' errors'',
       url = None,
       resource_type = ''article''\<rparr>,
      \<lparr>title = ''Common causes of '' @ etype,
       description = ''Explore the most frequent mistakes that lead to '' @ etype,
       url = None,
       resource_type = ''tutorial''\<rparr>,
      \<lparr>title = ''Best practices to avoid '' @ (case cons of c # _ \<Rightarrow> c | [] \<Rightarrow> ''errors''),
       description = ''Preventive techniques for writing more robust code'',
       url = None,
       resource_type = ''guide''\<rparr>]"

definition get_learning_resources ::
    "env \<Rightarrow> (prompt \<Rightarrow> string option) \<Rightarrow> string \<Rightarrow> string list \<Rightarrow> LearningResource list" where
  "get_learning_resources env gemini_model etype cons =
     (case try_learning_resources env gemini_model etype cons of
        Some resources \<Rightarrow> resources
      | None \<Rightarrow> fallback_resources etype cons)"

section \<open>History store\<close>

text \<open>\<open>ERROR_HISTORY.get(project_id, {}).get(error_type, [])\<close>\<close>

definition history_get :: "history \<Rightarrow> string \<Rightarrow> string \<Rightarrow> history_record list" where
  "history_get h pid etype =
     (case h pid of
        None \<Rightarrow> []
      | Some per_project \<Rightarrow> (case per_project etype of None \<Rightarrow> [] | Some records \<Rightarrow> records))"

text \<open>
  The update of the store: the entries of the project and of the error type are created
  when they are missing, then the record is appended.
\<close>

definition history_append :: "history \<Rightarrow> string \<Rightarrow> string \<Rightarrow> history_record \<Rightarrow> history" where
  "history_append h pid etype r =
     (let h1 = (if h pid = None then h(pid \<mapsto> Map.empty) else h);
          per_project = (case h1 pid of None \<Rightarrow> Map.empty | Some m \<Rightarrow> m);
          per_project1 = (if per_project etype = None then per_project(etype \<mapsto> []) else per_project);
          records = (case per_project1 etype of None \<Rightarrow> [] | Some rs \<Rightarrow> rs)
      in h1(pid \<mapsto> per_project1(etype \<mapsto> records @ [r])))"

text \<open>\<open>ErrorStatistics()\<close>: every field at its default.\<close>

definition empty_statistics :: ErrorStatistics where
  "empty_statistics =
     \<lparr>frequency = None, common_contexts = None, related_errors = None, last_occurrence = None\<rparr>"

text \<open>
  The second half of \<open>analyze_error_patterns\<close>: the call of the AI service on the
  occurrences, at most the last five, whose failure leaves the statistics as they are.
\<close>

definition last_five :: "history_record list \<Rightarrow> history_record list" where
  "last_five error_history =
     (if length error_history > 5 then drop (length error_history - 5) error_history
      else error_history)"

definition pattern_insights ::
    "env \<Rightarrow> (prompt \<Rightarrow> string option) \<Rightarrow> string \<Rightarrow> history_record list \<Rightarrow> ErrorStatistics
       \<Rightarrow> ErrorStatistics" where
  "pattern_insights env gemini_model etype error_history stats =
     (case do {
             content \<leftarrow> gemini_model
               (ErrorPatternsPrompt etype (length error_history) (last_five error_history));
             content \<leftarrow> strip_fence content;
             json_loads env content
           } of
        Some (JObj analysis) \<Rightarrow>
          stats\<lparr>common_contexts := Some (dict_get analysis ''common_contexts'' (JArr [])),
                related_errors := Some (dict_get analysis ''related_errors'' (JArr []))\<rparr>
      | _ \<Rightarrow> stats)"

text \<open>
  \<open>analyze_error_patterns\<close>: the statistics and the new store. A project identifier that
  is absent or empty leaves the store alone and gives no frequency.
\<close>

definition analyze_error_patterns ::
    "env \<Rightarrow> (prompt \<Rightarrow> string option) \<Rightarrow> history \<Rightarrow> string \<Rightarrow> string \<Rightarrow> string option
       \<Rightarrow> string option \<Rightarrow> ErrorStatistics \<times> history" where
  "analyze_error_patterns env gemini_model h etype msg ctx pid =
     (case pid of
        None \<Rightarrow> (empty_statistics, h)
      | Some p \<Rightarrow>
          if p = [] then (empty_statistics, h)
          else
            (let h' = history_append h p etype
                        \<lparr>timestamp = now_isoformat env, rec_message = msg, rec_context = ctx\<rparr>;
                 error_history = history_get h' p etype;
                 stats =
                   \<lparr>frequency = Some (length error_history),
                    common_contexts = None,
                    related_errors = None,
                    last_occurrence =
                      (if length error_history > 1
                       then Some (timestamp (error_history ! (length error_history - 2)))
                       else None)\<rparr>
             in if length error_history > 1
                then (pattern_insights env gemini_model etype error_history stats, h')
                else (stats, h')))"

section \<open>Request handler\<close>

text \<open>
  \<open>analyze_with_gemini\<close>: when \<open>setup_gemini\<close> raises, the \<open>except\<close> branch answers with
  one generic resource and empty statistics, and the store is not touched.
\<close>

definition analyze_with_gemini ::
    "env \<Rightarrow> history \<Rightarrow> ErrorInput \<Rightarrow> string \<Rightarrow> solution list \<Rightarrow> string list
       \<Rightarrow> ErrorResponse \<times> history" where
  "analyze_with_gemini env h error_input etype sols cons =
     (case setup_gemini env of
        None \<Rightarrow>
          (\<lparr>error_type = etype, solutions = sols, concepts = cons,
            learning_resources =
              Some [\<lparr>title = ''Understanding '' @ etype,
                     description = ''Learn about common '' @ etype @ '' issues'',
                     url = None,
                     resource_type = ''guide''\<rparr>],
            statistics = Some empty_statistics\<rparr>, h)
      | Some gemini_model \<Rightarrow>
          (let resources = get_learning_resources env gemini_model etype cons;
               (stats, h') = analyze_error_patterns env gemini_model h etype
                               (error_message error_input) (code_context error_input)
                               (project_id error_input)
           in (\<lparr>error_type = etype, solutions = sols, concepts = cons,
                 learning_resources = Some resources,
                 statistics = Some stats\<rparr>, h')))"

text \<open>
  The body of the loop of \<open>analyze_error\<close> for a catalog entry whose pattern matched: the
  solutions of the entry, with the solution built from the snippet put first when the
  heuristic names an issue.
\<close>

definition enriched_solutions :: "env \<Rightarrow> ErrorInput \<Rightarrow> pattern_entry \<Rightarrow> failure + solution list" where
  "enriched_solutions env error_input entry =
     (case code_context error_input of
        None \<Rightarrow> Inr (entry_solutions entry)
      | Some ctx \<Rightarrow>
          if ctx = [] then Inr (entry_solutions entry)
          else
            (case analyze_code_context (set_order env) (label entry)
                    (error_message error_input) ctx of
               None \<Rightarrow> Inr (entry_solutions entry)
             | Some ca \<Rightarrow>
                 (case specific_issue ca of
                    None \<Rightarrow> Inr (entry_solutions entry)
                  | Some issue \<Rightarrow>
                      if issue = [] then Inr (entry_solutions entry)
                      else
                        (case specific_fix ca of
                           None \<Rightarrow> Inl ValidationError
                         | Some f \<Rightarrow>
                             Inr (\<lparr>fix_text = f,
                                   explanation = issue,
                                   confidence = 0.95,
                                   code_example = ''# Based on your specific code:\<newline>'' @ ctx\<rparr>
                                  # entry_solutions entry)))))"

definition matched ::
    "env \<Rightarrow> history \<Rightarrow> ErrorInput \<Rightarrow> pattern_entry \<Rightarrow> (failure + ErrorResponse) \<times> history" where
  "matched env h error_input entry =
     (case enriched_solutions env error_input entry of
        Inl e \<Rightarrow> (Inl e, h)
      | Inr sols \<Rightarrow>
          (let (response, h') = analyze_with_gemini env h error_input (label entry) sols
                                  (entry_concepts entry)
           in (Inr response, h')))"

text \<open>
  The loop over the catalog: the first entry whose pattern is found in the message
  answers the request; \<open>None\<close> when the loop ends without a match.
\<close>

fun catalog_loop ::
    "env \<Rightarrow> history \<Rightarrow> ErrorInput \<Rightarrow> pattern_entry list
       \<Rightarrow> ((failure + ErrorResponse) \<times> history) option" where
  "catalog_loop env h error_input [] = None"
| "catalog_loop env h error_input (entry # entries) =
     (case re_search (pattern entry) (error_message error_input) of
        Some m \<Rightarrow> Some (matched env h error_input entry)
      | None \<Rightarrow> catalog_loop env h error_input entries)"

text \<open>
  The classification of a message no pattern matched, up to the call of
  \<open>analyze_with_gemini\<close>: the error type, the solutions and the concepts decoded from the
  answer of the AI service, \<open>None\<close> when anything raises. The error type and the concepts
  are held to the types the response declares for them (\<open>str\<close> and \<open>List[str]\<close>): with a
  value of another type both constructions of the response raise, in the \<open>try\<close> and in the
  \<open>except\<close> of \<open>analyze_with_gemini\<close>, and the request ends in the 404 as well. What such a
  request may have appended to the history before it fails is left out.
\<close>

definition classify_unknown :: "env \<Rightarrow> ErrorInput \<Rightarrow> (string \<times> solution list \<times> string list) option" where
  "classify_unknown env error_input =
     do {
       gemini_model \<leftarrow> setup_gemini env;
       content \<leftarrow> gemini_model
         (UnknownErrorPrompt (error_message error_input)
            (case code_context error_input of
               None \<Rightarrow> None
             | Some ctx \<Rightarrow> if ctx = [] then None else Some ctx));
       content \<leftarrow> strip_fence content;
       decoded \<leftarrow> json_loads env content;
       analysis \<leftarrow> (case decoded of JObj kvs \<Rightarrow> Some kvs | _ \<Rightarrow> None);
       etype \<leftarrow> as_str env (dict_get analysis ''error_type'' (JStr ''Unknown Error''));
       items \<leftarrow> iterate (dict_get analysis ''solutions'' (JArr []));
       sols \<leftarrow> those (map (make_Solution env) items);
       cons \<leftarrow> as_str_list env (dict_get analysis ''concepts'' (JArr []));
       Some (etype, sols, cons)
     }"

definition not_recognized :: failure where
  "not_recognized =
     HTTPException 404 ''Error pattern not recognized and failed to analyze with Gemini''"

text \<open>\<open>analyze_error\<close>: the answer to a request, and the history store after it.\<close>

definition analyze_error ::
    "env \<Rightarrow> history \<Rightarrow> ErrorInput \<Rightarrow> (failure + ErrorResponse) \<times> history" where
  "analyze_error env h error_input =
     (case catalog_loop env h error_input ERROR_PATTERNS of
        Some result \<Rightarrow> result
      | None \<Rightarrow>
          (case classify_unknown env error_input of
             None \<Rightarrow> (Inl not_recognized, h)
           | Some (etype, sols, cons) \<Rightarrow>
               (let (response, h') = analyze_with_gemini env h error_input etype sols cons
                in (Inr response, h'))))"

section \<open>Vocabulary of the properties\<close>

text \<open>
  The notions in which the properties below are stated. They are not part of the program:
  each theorem compares them with what the loops of the program compute.

  An entry matches a message when \<open>re.search\<close> finds its pattern; the first match is the
  first entry of the catalog, in the order of declaration, that matches.
\<close>

definition matches :: "pattern_entry \<Rightarrow> string \<Rightarrow> bool" where
  "matches entry msg = (re_search (pattern entry) msg \<noteq> None)"

definition first_match :: "string \<Rightarrow> pattern_entry option" where
  "first_match msg = find (\<lambda>entry. matches entry msg) ERROR_PATTERNS"


text \<open>The failure a client sees as "not recognized".\<close>

definition is_404 :: "failure + ErrorResponse \<Rightarrow> bool" where
  "is_404 result = (case result of Inl (HTTPException code detail) \<Rightarrow> code = 404 | _ \<Rightarrow> False)"


text \<open>
  The criterion of similarity, in the words of the specification and not in those of the
  loop: a candidate is similar to the undefined name when it is another string, its
  length differs by at most 2, and the two strings differ at no more than 2 of the
  positions they both have (position \<open>i\<close> of one against position \<open>i\<close> of the other, with
  no alignment). That the function \<open>differences\<close> of the program counts these positions
  is a lemma below.
\<close>

definition similar :: "string \<Rightarrow> string \<Rightarrow> bool" where
  "similar undefined_var var =
     (var \<noteq> undefined_var \<and> \<bar>int (length var) - int (length undefined_var)\<bar> \<le> 2 \<and>
      card {i. i < min (length var) (length undefined_var) \<and> var ! i \<noteq> undefined_var ! i} \<le> 2)"


text \<open>
  The literal subscripts of a list name in the snippet, the estimate of the length of a
  list from the text between its brackets, and a subscript whose index is not below the
  estimate. A match of the list pattern is the list of its two groups, name and content.
\<close>

definition subscripts :: "string \<Rightarrow> string \<Rightarrow> string list" where
  "subscripts ctx list_name = map group1 (re_findall (index_pattern list_name) ctx)"

definition estimated_length :: "string \<Rightarrow> nat" where
  "estimated_length list_content = length (split list_content '','')"

definition out_of_range :: "string \<Rightarrow> string list \<Rightarrow> string \<Rightarrow> bool" where
  "out_of_range ctx m index_str =
     (index_str \<in> set (subscripts ctx (group1 m)) \<and>
      estimated_length (group2 m) \<le> int_of_str index_str)"


text \<open>What the handler relies on: an issue comes with a fix and is not the empty string.\<close>

definition well_formed :: "context_analysis \<Rightarrow> bool" where
  "well_formed ca =
     (case specific_issue ca of
        None \<Rightarrow> True
      | Some issue \<Rightarrow> issue \<noteq> [] \<and> specific_fix ca \<noteq> None)"




section \<open>Example requests\<close>

text \<open>
  The concrete inputs at which the theorems are instantiated: a request, an environment
  whose AI service fails on every call (and which iterates over a set in the order of
  \<open>remdups\<close>), the same environment without the credential and five minutes later, a
  request of the project \<open>proj\<close>, and the messages and snippets of the examples.
\<close>

definition request :: "string \<Rightarrow> string option \<Rightarrow> string option \<Rightarrow> ErrorInput" where
  "request msg ctx pid =
     \<lparr>error_message = msg, code_context = ctx, language = ''python'', project_id = pid\<rparr>"

definition offline_env :: env where
  "offline_env =
     \<lparr>api_key = Some ''secret'',
      generate_content = (\<lambda>p. None),
      json_loads = (\<lambda>s. None),
      now_isoformat = ''2024-05-01T10:00:00'',
      set_order = remdups,
      as_str = (\<lambda>j. case j of JStr s \<Rightarrow> Some s | _ \<Rightarrow> None),
      as_float = (\<lambda>j. case j of JFloat x \<Rightarrow> Some x | JInt i \<Rightarrow> Some (of_int i) | _ \<Rightarrow> None)\<rparr>"




definition two_pattern_message :: string where
  "two_pattern_message = ''KeyError: 'k' and list index out of range''"





definition empty_list_snippet :: string where
  "empty_list_snippet = ''a = []\<newline>x = a[0]''"


section \<open>The loops of the heuristics\<close>

lemma differences_overlap:
  "differences var u = card {i. i < min (length var) (length u) \<and> var ! i \<noteq> u ! i}"
proof -
  have "{i. i < length (zip var u) \<and> (case zip var u ! i of (a, b) \<Rightarrow> a \<noteq> b)} =
      {i. i < min (length var) (length u) \<and> var ! i \<noteq> u ! i}"
    by auto
  then show ?thesis
    by (simp add: differences_def length_filter_conv_card)
qed

lemma similar_loop_filter:
  "similar_loop u vars acc = acc @ filter (similar u) vars"
  by (induction vars arbitrary: acc) (auto simp: similar_def differences_overlap)

lemma set_similar_loop:
  "set (similar_loop u vars []) = {var \<in> set vars. similar u var}"
  by (simp add: similar_loop_filter)

lemma split_go_nonempty: "split_go sep cur s \<noteq> []"
  by (induction sep cur s rule: split_go.induct) auto

lemma estimated_length_pos: "1 \<le> estimated_length content"
  using split_go_nonempty [of "'',''" "[]" content]
  by (cases "split_go '','' [] content") (auto simp: estimated_length_def split_def)

lemma estimated_length_empty: "estimated_length [] = 1"
  by (simp add: estimated_length_def split_def)

lemma index_loop_unflagged:
  "\<forall>s\<in>set idxs. int_of_str s < len \<Longrightarrow> index_loop name len idxs ca = ca"
  by (induction idxs arbitrary: ca) (auto simp: Let_def)

lemma index_loop_flagged:
  "\<exists>s\<in>set idxs. len \<le> int_of_str s \<Longrightarrow>
   \<exists>s\<in>set idxs. len \<le> int_of_str s \<and>
     index_loop name len idxs ca =
       ca\<lparr>specific_issue := Some (index_issue (int_of_str s) name),
          specific_fix := Some (index_fix name len)\<rparr>"
proof (induction idxs arbitrary: ca)
  case Nil
  then show ?case by simp
next
  case (Cons a idxs)
  show ?case
  proof (cases "\<exists>s\<in>set idxs. len \<le> int_of_str s")
    case True
    let ?ca = "if len \<le> int_of_str a
               then ca\<lparr>specific_issue := Some (index_issue (int_of_str a) name),
                       specific_fix := Some (index_fix name len)\<rparr>
               else ca"
    from Cons.IH [OF True, of ?ca] obtain s where
      s: "s \<in> set idxs" "len \<le> int_of_str s" and
      eq: "index_loop name len idxs ?ca =
             ?ca\<lparr>specific_issue := Some (index_issue (int_of_str s) name),
                  specific_fix := Some (index_fix name len)\<rparr>"
      by blast
    have "index_loop name len (a # idxs) ca =
            ca\<lparr>specific_issue := Some (index_issue (int_of_str s) name),
               specific_fix := Some (index_fix name len)\<rparr>"
      using eq by (simp add: Let_def split: if_splits)
    with s show ?thesis by auto
  next
    case False
    then have rest: "\<forall>s\<in>set idxs. int_of_str s < len" by auto
    with Cons.prems have a: "len \<le> int_of_str a" by auto
    have "index_loop name len (a # idxs) ca =
            ca\<lparr>specific_issue := Some (index_issue (int_of_str a) name),
               specific_fix := Some (index_fix name len)\<rparr>"
      using a by (simp add: Let_def index_loop_unflagged [OF rest])
    with a show ?thesis by auto
  qed
qed

lemma list_loop_unflagged:
  "\<forall>m\<in>set lms. \<forall>s. \<not> out_of_range ctx m s \<Longrightarrow> list_loop ctx lms ca = ca"
proof (induction lms arbitrary: ca)
  case Nil
  then show ?case by simp
next
  case (Cons m lms)
  have "\<forall>s\<in>set (subscripts ctx (group1 m)). int_of_str s < estimated_length (group2 m)"
    using Cons.prems by (auto simp: out_of_range_def not_le)
  then have "index_loop (group1 m) (estimated_length (group2 m)) (subscripts ctx (group1 m)) ca = ca"
    by (rule index_loop_unflagged)
  with Cons show ?case
    by (simp add: Let_def subscripts_def estimated_length_def)
qed

lemma list_loop_flagged:
  "\<exists>m\<in>set lms. \<exists>s. out_of_range ctx m s \<Longrightarrow>
   \<exists>m\<in>set lms. \<exists>s. out_of_range ctx m s \<and>
     list_loop ctx lms ca =
       ca\<lparr>specific_issue := Some (index_issue (int_of_str s) (group1 m)),
          specific_fix := Some (index_fix (group1 m) (estimated_length (group2 m)))\<rparr>"
proof (induction lms arbitrary: ca)
  case Nil
  then show ?case by simp
next
  case (Cons m lms)
  let ?ca = "index_loop (group1 m) (estimated_length (group2 m)) (subscripts ctx (group1 m)) ca"
  have step: "list_loop ctx (m # lms) ca = list_loop ctx lms ?ca"
    by (simp add: Let_def subscripts_def estimated_length_def)
  have ca_cases: "?ca = ca \<or> (\<exists>x y. ?ca = ca\<lparr>specific_issue := x, specific_fix := y\<rparr>)"
  proof (cases "\<exists>s\<in>set (subscripts ctx (group1 m)). estimated_length (group2 m) \<le> int_of_str s")
    case True
    from index_loop_flagged [OF True] show ?thesis by blast
  next
    case False
    then have "\<forall>s\<in>set (subscripts ctx (group1 m)). int_of_str s < estimated_length (group2 m)"
      by (auto simp: not_le)
    then show ?thesis by (simp add: index_loop_unflagged)
  qed
  show ?case
  proof (cases "\<exists>m'\<in>set lms. \<exists>s. out_of_range ctx m' s")
    case True
    from Cons.IH [OF True, of ?ca] obtain m' s where
      lmem: "m' \<in> set lms" "out_of_range ctx m' s" and
      eq: "list_loop ctx lms ?ca =
             ?ca\<lparr>specific_issue := Some (index_issue (int_of_str s) (group1 m')),
                  specific_fix := Some (index_fix (group1 m') (estimated_length (group2 m')))\<rparr>"
      by blast
    have "list_loop ctx (m # lms) ca =
            ca\<lparr>specific_issue := Some (index_issue (int_of_str s) (group1 m')),
               specific_fix := Some (index_fix (group1 m') (estimated_length (group2 m')))\<rparr>"
      using ca_cases eq step by auto
    with lmem show ?thesis by auto
  next
    case False
    then have rest: "\<forall>m'\<in>set lms. \<forall>s. \<not> out_of_range ctx m' s" by auto
    with Cons.prems obtain s0 where "out_of_range ctx m s0" by auto
    then have "\<exists>s\<in>set (subscripts ctx (group1 m)). estimated_length (group2 m) \<le> int_of_str s"
      by (auto simp: out_of_range_def)
    from index_loop_flagged [OF this, where ca = ca] obtain s where
      s: "s \<in> set (subscripts ctx (group1 m))" "estimated_length (group2 m) \<le> int_of_str s" and
      eq: "?ca = ca\<lparr>specific_issue := Some (index_issue (int_of_str s) (group1 m)),
                    specific_fix := Some (index_fix (group1 m) (estimated_length (group2 m)))\<rparr>"
      by blast
    have "list_loop ctx (m # lms) ca = ?ca"
      using step list_loop_unflagged [OF rest] by simp
    with eq s show ?thesis by (auto simp: out_of_range_def)
  qed
qed

lemma str_nat_nonempty: "str_nat n \<noteq> []"
  by (induction n rule: str_nat.induct) (subst str_nat.simps, simp)

lemma str_nat_hd_zero: "hd (str_nat n) = CHR ''0'' \<longleftrightarrow> n = 0"
proof (induction n rule: str_nat.induct)
  case (1 n)
  show ?case
  proof (cases "n < 10")
    case True
    then have "n = 0 \<or> n = 1 \<or> n = 2 \<or> n = 3 \<or> n = 4 \<or> n = 5 \<or> n = 6 \<or> n = 7 \<or> n = 8 \<or> n = 9"
      by arith
    then show ?thesis
      by (subst str_nat.simps) (auto simp: digit_char_def)
  next
    case False
    then have "n div 10 \<noteq> 0" by simp
    with 1 False have "hd (str_nat (n div 10)) \<noteq> CHR ''0''" by simp
    moreover have "str_nat n = str_nat (n div 10) @ [digit_char (n mod 10)]"
      using False by (subst str_nat.simps) simp
    ultimately show ?thesis using False str_nat_nonempty [of "n div 10"] by simp
  qed
qed

lemma index_issue_nonempty: "index_issue i n \<noteq> []"
  by (simp add: index_issue_def)

lemma index_issue_zero:
  assumes "index_issue i n = index_issue 0 n'"
  shows "i = 0"
proof -
  have z: "str_nat 0 = ''0''" by (subst str_nat.simps) (simp add: digit_char_def)
  have d: "drop 6 (index_issue j k) = str_nat j @ '' is out of range for list '' @ quote @ k @ quote"
    for j k by (simp add: index_issue_def)
  have "hd (drop 6 (index_issue j k)) = hd (str_nat j)" for j k
    unfolding d using str_nat_nonempty [of j] by (rule hd_append2)
  from this [of i n] this [of 0 n'] assms have "hd (str_nat i) = CHR ''0''"
    by (simp add: z)
  then show ?thesis by (simp add: str_nat_hd_zero)
qed

lemma typo_issue_nonempty: "typo_issue u \<noteq> []"
  by (simp add: typo_issue_def)

lemma index_error_analysis_cases:
  "index_error_analysis ctx = \<lparr>specific_issue = None, specific_fix = None\<rparr> \<or>
   (\<exists>m\<in>set (re_findall list_pattern ctx). \<exists>s. out_of_range ctx m s \<and>
      index_error_analysis ctx =
        \<lparr>specific_issue = Some (index_issue (int_of_str s) (group1 m)),
         specific_fix = Some (index_fix (group1 m) (estimated_length (group2 m)))\<rparr>)"
proof (cases "\<exists>m\<in>set (re_findall list_pattern ctx). \<exists>s. out_of_range ctx m s")
  case True
  from list_loop_flagged [OF True, of "\<lparr>specific_issue = None, specific_fix = None\<rparr>"]
  show ?thesis by (auto simp: index_error_analysis_def)
next
  case False
  then have "\<forall>m\<in>set (re_findall list_pattern ctx). \<forall>s. \<not> out_of_range ctx m s" by auto
  from list_loop_unflagged [OF this] show ?thesis by (simp add: index_error_analysis_def)
qed

lemma analyze_code_context_well_formed:
  "analyze_code_context it et msg ctx = Some ca \<Longrightarrow> well_formed ca"
  using index_error_analysis_cases [of ctx]
  by (auto simp: analyze_code_context_def name_error_analysis_def well_formed_def Let_def
        index_issue_nonempty typo_issue_nonempty
      split: if_splits option.splits list.splits)


section \<open>The handler, step by step\<close>

lemma enriched_solutions_cases:
  "enriched_solutions env inp e = Inr (entry_solutions e) \<or>
   (\<exists>ctx ca issue f. code_context inp = Some ctx \<and>
      analyze_code_context (set_order env) (label e) (error_message inp) ctx = Some ca \<and>
      specific_issue ca = Some issue \<and> specific_fix ca = Some f \<and>
      enriched_solutions env inp e =
        Inr (\<lparr>fix_text = f, explanation = issue, confidence = 0.95,
              code_example = ''# Based on your specific code:\<newline>'' @ ctx\<rparr> # entry_solutions e))"
  using analyze_code_context_well_formed
  by (fastforce simp: enriched_solutions_def well_formed_def split: option.splits if_splits)


lemma catalog_loop_find:
  "catalog_loop env h inp es =
     map_option (matched env h inp) (find (\<lambda>entry. matches entry (error_message inp)) es)"
  by (induction es) (auto simp: matches_def split: option.splits)

lemma analyze_error_first_match:
  "analyze_error env h inp =
     (case first_match (error_message inp) of
        Some e \<Rightarrow> matched env h inp e
      | None \<Rightarrow>
          (case classify_unknown env inp of
             None \<Rightarrow> (Inl not_recognized, h)
           | Some (etype, sols, cons) \<Rightarrow>
               (Inr (fst (analyze_with_gemini env h inp etype sols cons)),
                snd (analyze_with_gemini env h inp etype sols cons))))"
  by (auto simp: analyze_error_def catalog_loop_find first_match_def split: option.splits prod.splits)

lemma matched_Inr:
  "enriched_solutions env inp e = Inr sols \<Longrightarrow>
   matched env h inp e =
     (Inr (fst (analyze_with_gemini env h inp (label e) sols (entry_concepts e))),
      snd (analyze_with_gemini env h inp (label e) sols (entry_concepts e)))"
  by (simp add: matched_def split: prod.splits)






lemma first_match_in_catalog: "first_match msg = Some e \<Longrightarrow> e \<in> set ERROR_PATTERNS \<and> matches e msg"
  by (auto simp: first_match_def find_Some_iff)


lemma first_match_None: "first_match msg = None \<longleftrightarrow> (\<forall>e\<in>set ERROR_PATTERNS. \<not> matches e msg)"
  by (auto simp: first_match_def find_None_iff)

lemma response_of_match:
  assumes "first_match (error_message inp) = Some e"
  shows "\<exists>sols. enriched_solutions env inp e = Inr sols \<and>
    analyze_error env h inp =
      (Inr (fst (analyze_with_gemini env h inp (label e) sols (entry_concepts e))),
       snd (analyze_with_gemini env h inp (label e) sols (entry_concepts e)))"
proof -
  obtain sols where sols: "enriched_solutions env inp e = Inr sols"
    using enriched_solutions_cases [of env inp e] by blast
  then show ?thesis
    using assms by (simp add: analyze_error_first_match matched_Inr)
qed


section \<open>Catalog precedence\<close>

text \<open>
  \<open>re.search\<close> is not anchored: a match that starts after any prefix of the message is
  found. It is case-sensitive: the message of an index error in another case is not a
  match of its pattern.
\<close>

lemma search_from_anywhere:
  "ms r \<lparr>m_prev = (if before = [] then p else Some (last before)), m_rest = s, m_groups = []\<rparr> \<noteq> []
   \<Longrightarrow> search_from r p (before @ s) \<noteq> None"
proof (induction before arbitrary: p)
  case Nil
  then show ?case by (cases s) (auto split: list.splits)
next
  case (Cons c before)
  from Cons.prems have "search_from r (Some c) (before @ s) \<noteq> None"
    by (intro Cons.IH) (auto split: if_splits)
  then show ?case by (auto split: list.splits)
qed

lemma matching_is_case_sensitive:
  "\<not> matches (ERROR_PATTERNS ! 2) ''List Index Out Of Range''"
  by code_simp

lemma two_pattern_matches:
  "\<not> matches (ERROR_PATTERNS ! 0) two_pattern_message"
  "\<not> matches (ERROR_PATTERNS ! 1) two_pattern_message"
  "matches (ERROR_PATTERNS ! 2) two_pattern_message"
  "matches (ERROR_PATTERNS ! 3) two_pattern_message"
  by code_simp+

lemma unknown_message_no_match: "\<forall>e\<in>set ERROR_PATTERNS. \<not> matches e ''Segmentation fault''"
  by code_simp








section \<open>The "not recognized" failure\<close>

text \<open>
  Claim C2. A request fails with the 404 "not recognized" exactly when no pattern of the
  catalog matches the message and the classification by the AI service raises; in
  particular a request whose message matches a pattern never gets the 404.
\<close>

theorem not_found_iff:
  "is_404 (fst (analyze_error env h inp)) \<longleftrightarrow>
     (\<forall>e\<in>set ERROR_PATTERNS. \<not> matches e (error_message inp)) \<and> classify_unknown env inp = None"
proof (cases "first_match (error_message inp)")
  case None
  then have no: "\<forall>e\<in>set ERROR_PATTERNS. \<not> matches e (error_message inp)"
    by (simp add: first_match_None)
  show ?thesis
  proof (cases "classify_unknown env inp")
    case None
    with \<open>first_match (error_message inp) = None\<close> no show ?thesis
      by (simp add: analyze_error_first_match is_404_def not_recognized_def)
  next
    case (Some c)
    with \<open>first_match (error_message inp) = None\<close> show ?thesis
      by (cases c) (simp add: analyze_error_first_match is_404_def)
  qed
next
  case (Some e)
  from response_of_match [OF Some, of env h] have "\<not> is_404 (fst (analyze_error env h inp))"
    by (auto simp: is_404_def)
  moreover have "\<not> (\<forall>e\<in>set ERROR_PATTERNS. \<not> matches e (error_message inp))"
    using first_match_in_catalog [OF Some] by blast
  ultimately show ?thesis by simp
qed


text \<open>
  With an AI service that fails, an unknown message gets the 404, and a message of the
  catalog does not.
\<close>

theorem not_found_iff_witness:
  "is_404 (fst (analyze_error offline_env Map.empty (request ''Segmentation fault'' None None))) \<and>
   \<not> is_404 (fst (analyze_error offline_env Map.empty (request two_pattern_message None None)))"
proof -
  have a: "classify_unknown offline_env (request ''Segmentation fault'' None None) = None"
    by (simp add: classify_unknown_def setup_gemini_def offline_env_def)
  have b: "matches (ERROR_PATTERNS ! 2) two_pattern_message" by (rule two_pattern_matches)
  have "ERROR_PATTERNS ! 2 \<in> set ERROR_PATTERNS" by (simp add: ERROR_PATTERNS_def)
  with b have c: "\<not> (\<forall>e\<in>set ERROR_PATTERNS. \<not> matches e two_pattern_message)" by blast
  show ?thesis
    using not_found_iff [of offline_env Map.empty "request ''Segmentation fault'' None None"]
      not_found_iff [of offline_env Map.empty "request two_pattern_message None None"]
      a c unknown_message_no_match
    by (simp add: request_def)
qed


section \<open>A missing credential\<close>







section \<open>Learning resources\<close>

text \<open>
  The \<open>try\<close> of \<open>get_learning_resources\<close> raises when the call of the AI service fails,
  when the answer is not JSON, and when a resource lacks a required field.
\<close>

lemma try_learning_resources_call_raises:
  "gm (LearningResourcesPrompt et cons) = None \<Longrightarrow> try_learning_resources env gm et cons = None"
  by (simp add: try_learning_resources_def)

lemma try_learning_resources_malformed_json:
  "gm (LearningResourcesPrompt et cons) = Some content \<Longrightarrow> strip_fence content = Some c \<Longrightarrow>
   json_loads env c = None \<Longrightarrow> try_learning_resources env gm et cons = None"
  by (simp add: try_learning_resources_def)

lemma try_learning_resources_missing_field:
  "gm (LearningResourcesPrompt et cons) = Some content \<Longrightarrow> strip_fence content = Some c \<Longrightarrow>
   json_loads env c = Some (JArr (JObj kvs # rest)) \<Longrightarrow>
   map_of kvs ''title'' = None \<or> map_of kvs ''description'' = None \<or>
     map_of kvs ''resource_type'' = None \<Longrightarrow>
   try_learning_resources env gm et cons = None"
  by (auto simp: try_learning_resources_def make_LearningResource_def required_str_def
      split: Option.bind_splits)






section \<open>History and statistics\<close>


lemma history_get_append_other:
  "p' \<noteq> p \<or> et' \<noteq> et \<Longrightarrow> history_get (history_append h p et r) p' et' = history_get h p' et'"
  by (auto simp: history_get_def history_append_def Let_def split: option.splits)















section \<open>The typo heuristic\<close>








section \<open>The index heuristic\<close>







section \<open>Solutions of a response\<close>






section \<open>Two consequences of the estimates\<close>

text \<open>
  Claim C9. The bracket text of a list declared as \<open>[]\<close> is empty, and splitting the
  empty text at commas gives one piece: the estimated length is 1. So a subscript with
  index 0 is never out of range for the heuristic, and no analysis reports index 0.
\<close>

theorem empty_list_counts_as_one:
  "estimated_length [] = 1 \<and>
   (int_of_str index_str = 0 \<longrightarrow> \<not> out_of_range ctx m index_str) \<and>
   (analyze_code_context iteration ''IndexError'' msg ctx = Some ca \<longrightarrow>
      specific_issue ca \<noteq> Some (index_issue 0 list_name))"
proof (intro conjI impI)
  show "estimated_length [] = 1" by (rule estimated_length_empty)
next
  assume "int_of_str index_str = 0"
  then show "\<not> out_of_range ctx m index_str"
    using estimated_length_pos [of "group2 m"] by (simp add: out_of_range_def)
next
  assume a: "analyze_code_context iteration ''IndexError'' msg ctx = Some ca"
  show "specific_issue ca \<noteq> Some (index_issue 0 list_name)"
  proof
    assume b: "specific_issue ca = Some (index_issue 0 list_name)"
    from a have ca: "ca = index_error_analysis ctx"
      by (simp add: analyze_code_context_def split: if_splits)
    from index_error_analysis_cases [of ctx] b ca obtain m' s where
      "out_of_range ctx m' s" "index_issue (int_of_str s) (group1 m') = index_issue 0 list_name"
      by auto
    then have "int_of_str s = 0" "estimated_length (group2 m') \<le> int_of_str s"
      by (auto dest: index_issue_zero simp: out_of_range_def)
    then show False using estimated_length_pos [of "group2 m'"] by simp
  qed
qed


text \<open>The snippet \<open>a = []\<close>, \<open>x = a[0]\<close>: nothing is reported.\<close>

theorem empty_list_counts_as_one_witness:
  "re_findall list_pattern empty_list_snippet = [[''a'', []]] \<and>
   subscripts empty_list_snippet ''a'' = [''0''] \<and>
   \<not> out_of_range empty_list_snippet [''a'', []] ''0'' \<and>
   analyze_code_context remdups ''IndexError'' ''list index out of range'' empty_list_snippet =
     Some \<lparr>specific_issue = None, specific_fix = None\<rparr>"
proof -
  have a: "re_findall list_pattern empty_list_snippet = [[''a'', []]]"
    "subscripts empty_list_snippet ''a'' = [''0'']"
    "int_of_str ''0'' = 0"
    by code_simp+
  have b: "analyze_code_context remdups ''IndexError'' ''list index out of range'' empty_list_snippet =
     Some \<lparr>specific_issue = None, specific_fix = None\<rparr>"
    by code_simp
  from empty_list_counts_as_one [of "''0''" empty_list_snippet "[''a'', []]"] a(3)
  have "\<not> out_of_range empty_list_snippet [''a'', []] ''0''" by blast
  with a b show ?thesis by simp
qed


text \<open>
  Claim C10. The mismatches between a token and the undefined name are counted on
  their common length only. So every token of the snippet other than the undefined
  name itself, whose length is within 2 of the length of the name and which differs
  from it in at most 2 positions of the overlap, is among the similar candidates, be it
  a numeric literal.
\<close>

theorem overlap_only_similarity:
  assumes "var \<in> set all_variables" and "var \<noteq> undefined_var"
    and "\<bar>int (length var) - int (length undefined_var)\<bar> \<le> 2"
    and "card {i. i < min (length var) (length undefined_var) \<and> var ! i \<noteq> undefined_var ! i} \<le> 2"
  shows "differences var undefined_var =
           card {i. i < min (length var) (length undefined_var) \<and> var ! i \<noteq> undefined_var ! i} \<and>
         var \<in> set (similar_loop undefined_var all_variables [])"
  using assms by (simp add: set_similar_loop similar_def differences_overlap)


text \<open>
  For the undefined name \<open>foo\<close> and the snippet \<open>foo = 1\<close>, the token \<open>1\<close> has one
  mismatch and a length difference of 2, and is reported as similar.
\<close>

theorem overlap_only_similarity_witness:
  "collect_variables (split ''foo = 1'' ''\<newline>'') = [''foo'', ''1''] \<and>
   differences ''1'' ''foo'' = 1 \<and>
   ''1'' \<in> set (similar_loop ''foo'' (collect_variables (split ''foo = 1'' ''\<newline>'')) [])"
proof -
  have toks: "collect_variables (split ''foo = 1'' ''\<newline>'') = [''foo'', ''1'']" by code_simp
  have d: "differences ''1'' ''foo'' = 1" by code_simp
  have c: "card {i. i < min (length ''1'') (length ''foo'') \<and> ''1'' ! i \<noteq> ''foo'' ! i} \<le> 2"
    unfolding differences_overlap [symmetric] d by simp
  have mem: "''1'' \<in> set [''foo'', ''1'']" by simp
  have ne: "''1'' \<noteq> ''foo''" by simp
  have len: "\<bar>int (length ''1'') - int (length ''foo'')\<bar> \<le> 2" by simp
  from overlap_only_similarity [OF mem ne len c] toks d show ?thesis by simp
qed


end
